theory Spec2Isabelle
  imports Main "HOL-Library.Multiset"
begin

section \<open>Strings of the host language\<close>

text \<open>
  A JavaScript string is modelled as a \<^typ>\<open>string\<close>: one \<^typ>\<open>char\<close> per code unit, for
  strings whose code units are below 256.  On that range the regular expressions of
  \<^verbatim>\<open>tz-utils.js\<close> see exactly the classes defined here: \<^verbatim>\<open>\d\<close> is the ten ASCII
  digits, \<^verbatim>\<open>\s\<close> and \<^verbatim>\<open>String.prototype.trim\<close> strip TAB, LF, VT, FF, CR, SPACE and
  NBSP, and the flag \<^verbatim>\<open>i\<close> identifies an ASCII letter with its other case only.
\<close>

definition is_digit :: "char \<Rightarrow> bool" where
  "is_digit c \<longleftrightarrow> (48::nat) \<le> of_char c \<and> (of_char c::nat) \<le> 57"

definition digit_value :: "char \<Rightarrow> nat" where
  "digit_value c = of_char c - 48"

definition is_space :: "char \<Rightarrow> bool" where
  "is_space c \<longleftrightarrow> (of_char c::nat) \<in> {9, 10, 11, 12, 13, 32, 160}"

definition trim :: "string \<Rightarrow> string" where
  "trim s = rev (dropWhile is_space (rev (dropWhile is_space s)))"

text \<open>\<^verbatim>\<open>Number(part)\<close> on a string of decimal digits.\<close>

definition Number :: "string \<Rightarrow> nat" where
  "Number ds = foldl (\<lambda>a c. 10 * a + digit_value c) 0 ds"

section \<open>Offset labels: \<^verbatim>\<open>offsetLabelToMinutes\<close>\<close>

text \<open>
  \<^verbatim>\<open>(?:utc|gmt)\<close> under the flag \<^verbatim>\<open>i\<close>, at the head of the string; the result is what
  follows the three letters.
\<close>

fun utc_or_gmt :: "string \<Rightarrow> string option" where
  "utc_or_gmt (a # b # c # r) =
     (if (a \<in> set ''uU'' \<and> b \<in> set ''tT'' \<and> c \<in> set ''cC'')
        \<or> (a \<in> set ''gG'' \<and> b \<in> set ''mM'' \<and> c \<in> set ''tT'')
      then Some r else None)"
| "utc_or_gmt _ = None"

text \<open>
  \<^verbatim>\<open>.replace(/^\(?(?:utc|gmt)\)?\s*/i, '')\<close>: an optional opening parenthesis, the letters,
  an optional closing parenthesis and the white space after them are removed; a string
  that does not start so is left as it is.
\<close>

definition strip_utc_prefix :: "string \<Rightarrow> string" where
  "strip_utc_prefix s =
     (case utc_or_gmt (case s of c # r \<Rightarrow> if c = CHR ''('' then r else s | [] \<Rightarrow> s) of
        None \<Rightarrow> s
      | Some r \<Rightarrow>
          dropWhile is_space (case r of c # r' \<Rightarrow> if c = CHR '')'' then r' else r | [] \<Rightarrow> r))"

text \<open>\<^verbatim>\<open>.replace(/\)$/, '')\<close>: one closing parenthesis at the very end is removed.\<close>

definition strip_close :: "string \<Rightarrow> string" where
  "strip_close s = (if s \<noteq> [] \<and> last s = CHR '')'' then butlast s else s)"

text \<open>The chain \<^verbatim>\<open>String(offset).trim().replace(..).replace(..).trim()\<close>.\<close>

definition strip_label :: "string \<Rightarrow> string" where
  "strip_label s = trim (strip_close (strip_utc_prefix (trim s)))"

text \<open>
  The tail \<^verbatim>\<open>(?::?(\d{2}))?$\<close> of the pattern, tried on what is left after the hours:
  \<open>Some (Some m)\<close> when the group matched the minutes \<open>m\<close>, \<open>Some None\<close> when the group
  was skipped at the end of the string, \<open>None\<close> when the tail does not match.
\<close>

fun two_digits_end :: "string \<Rightarrow> string option" where
  "two_digits_end [c, d] = (if is_digit c \<and> is_digit d then Some [c, d] else None)"
| "two_digits_end _ = None"

definition minutes_tail :: "string \<Rightarrow> string option option" where
  "minutes_tail r =
     (case two_digits_end (case r of c # r' \<Rightarrow> if c = CHR '':'' then r' else r | [] \<Rightarrow> r) of
        Some m \<Rightarrow> Some (Some m)
      | None \<Rightarrow> if r = [] then Some None else None)"

text \<open>
  \<^verbatim>\<open>trimmed.match(/^([+-])(\d{1,2})(?::?(\d{2}))?$/)\<close>, with the matcher's order of
  attempts: the hours take two digits first and give one back when the rest fails.
  The result is the three groups: sign, hours, minutes (absent when the group did not
  take part).
\<close>

definition hours_then_tail :: "nat \<Rightarrow> string \<Rightarrow> (string \<times> string option) option" where
  "hours_then_tail n r =
     (if n \<le> length r \<and> (\<forall>c \<in> set (take n r). is_digit c)
      then map_option (\<lambda>m. (take n r, m)) (minutes_tail (drop n r))
      else None)"

definition match_offset :: "string \<Rightarrow> (char \<times> string \<times> string option) option" where
  "match_offset t =
     (case t of
        [] \<Rightarrow> None
      | sg # r \<Rightarrow>
          if sg = CHR ''+'' \<or> sg = CHR ''-'' then
            (case hours_then_tail 2 r of
               Some (h, m) \<Rightarrow> Some (sg, h, m)
             | None \<Rightarrow> map_option (\<lambda>(h, m). (sg, h, m)) (hours_then_tail 1 r))
          else None)"

text \<open>
  \<^verbatim>\<open>offsetLabelToMinutes(offset)\<close> for a string argument; \<open>None\<close> is \<^verbatim>\<open>undefined\<close>.
  The groups hold digits only, so \<^verbatim>\<open>Number\<close> never yields \<^verbatim>\<open>NaN\<close> and that
  test of the source never fires.
\<close>

definition offsetLabelToMinutes :: "string \<Rightarrow> int option" where
  "offsetLabelToMinutes offset =
     (if offset = [] then None
      else case match_offset (strip_label offset) of
        None \<Rightarrow> None
      | Some (sg, hoursPart, minutesPart) \<Rightarrow>
          let hours = Number hoursPart;
              minutes = (case minutesPart of Some m \<Rightarrow> Number m | None \<Rightarrow> 0)
          in if minutes \<ge> 60 then None
             else if hours > 14 \<or> (hours = 14 \<and> minutes \<noteq> 0) then None
             else let total = int (hours * 60 + minutes)
                  in Some (if sg = CHR ''-'' then - total else total))"

subsection \<open>The accepted shapes, as a list of forms\<close>

definition two_digit :: "char \<Rightarrow> char \<Rightarrow> nat" where
  "two_digit a b = 10 * digit_value a + digit_value b"

text \<open>
  The digits after the sign, read form by form: \<open>H\<close>, \<open>HH\<close>, \<open>HMM\<close>, \<open>H:MM\<close>,
  \<open>HHMM\<close> and \<open>HH:MM\<close>; the result is the pair of hours and minutes.
\<close>

definition offset_forms :: "string \<Rightarrow> (nat \<times> nat) option" where
  "offset_forms r =
     (case r of
        [a] \<Rightarrow> if is_digit a then Some (digit_value a, 0) else None
      | [a, b] \<Rightarrow> if is_digit a \<and> is_digit b then Some (two_digit a b, 0) else None
      | [a, c, d] \<Rightarrow>
          if is_digit a \<and> is_digit c \<and> is_digit d then Some (digit_value a, two_digit c d)
          else None
      | [a, b, c, d] \<Rightarrow>
          if is_digit a \<and> b = CHR '':'' \<and> is_digit c \<and> is_digit d
          then Some (digit_value a, two_digit c d)
          else if is_digit a \<and> is_digit b \<and> is_digit c \<and> is_digit d
          then Some (two_digit a b, two_digit c d)
          else None
      | [a, b, k, c, d] \<Rightarrow>
          if is_digit a \<and> is_digit b \<and> k = CHR '':'' \<and> is_digit c \<and> is_digit d
          then Some (two_digit a b, two_digit c d)
          else None
      | _ \<Rightarrow> None)"

text \<open>The four forms \<open>H\<close>, \<open>HH\<close>, \<open>HH:MM\<close> and \<open>HHMM\<close> alone.\<close>

definition offset_forms4 :: "string \<Rightarrow> (nat \<times> nat) option" where
  "offset_forms4 r =
     (case r of
        [a] \<Rightarrow> if is_digit a then Some (digit_value a, 0) else None
      | [a, b] \<Rightarrow> if is_digit a \<and> is_digit b then Some (two_digit a b, 0) else None
      | [a, b, c, d] \<Rightarrow>
          if is_digit a \<and> is_digit b \<and> is_digit c \<and> is_digit d
          then Some (two_digit a b, two_digit c d)
          else None
      | [a, b, k, c, d] \<Rightarrow>
          if is_digit a \<and> is_digit b \<and> k = CHR '':'' \<and> is_digit c \<and> is_digit d
          then Some (two_digit a b, two_digit c d)
          else None
      | _ \<Rightarrow> None)"

text \<open>
  The parser as the specification words it, over a list of forms: strip the label, read a
  sign and one of the forms, refuse hours above 14, 14 hours with minutes, and minutes
  from 60 on, and return the signed number of minutes.
\<close>

definition minutes_of_forms :: "(string \<Rightarrow> (nat \<times> nat) option) \<Rightarrow> string \<Rightarrow> int option" where
  "minutes_of_forms forms s =
     (case strip_label s of
        [] \<Rightarrow> None
      | sg # r \<Rightarrow>
          if sg = CHR ''+'' \<or> sg = CHR ''-'' then
            (case forms r of
               None \<Rightarrow> None
             | Some (h, m) \<Rightarrow>
                 if h > 14 \<or> (h = 14 \<and> m \<noteq> 0) \<or> m \<ge> 60 then None
                 else Some ((if sg = CHR ''-'' then - 1 else 1) * int (h * 60 + m)))
          else None)"

definition groups_value :: "(string \<times> string option) \<Rightarrow> nat \<times> nat" where
  "groups_value g = (Number (fst g), case snd g of Some m \<Rightarrow> Number m | None \<Rightarrow> 0)"

lemmas offset_eval = offsetLabelToMinutes_def strip_label_def trim_def strip_close_def
  strip_utc_prefix_def is_space_def match_offset_def hours_then_tail_def minutes_tail_def
  is_digit_def Number_def digit_value_def

lemma colon_not_digit [simp]: "\<not> is_digit CHR '':''"
  by (simp add: is_digit_def)

lemma Number_simps [simp]:
  "Number [a] = digit_value a" "Number [a, b] = two_digit a b"
  by (simp_all add: Number_def two_digit_def)

lemma hours_forms:
  "map_option groups_value
     (case hours_then_tail 2 r of Some g \<Rightarrow> Some g | None \<Rightarrow> hours_then_tail 1 r)
   = offset_forms r"
  by (auto simp: hours_then_tail_def minutes_tail_def offset_forms_def groups_value_def
      split: list.splits option.splits if_splits)

lemma match_offset_Cons:
  "match_offset (sg # r) =
     (if sg = CHR ''+'' \<or> sg = CHR ''-''
      then map_option (\<lambda>g. (sg, fst g, snd g))
             (case hours_then_tail 2 r of Some g \<Rightarrow> Some g | None \<Rightarrow> hours_then_tail 1 r)
      else None)"
  by (auto simp: match_offset_def split: option.splits)

lemma strip_label_Nil [simp]: "strip_label [] = []"
  by (simp add: strip_label_def trim_def strip_utc_prefix_def strip_close_def)

lemma offsetLabelToMinutes_Nil:
  "strip_label s = [] \<Longrightarrow> offsetLabelToMinutes s = None"
  by (simp add: offsetLabelToMinutes_def match_offset_def)

lemma offsetLabelToMinutes_Cons:
  assumes "strip_label s = sg # r"
  shows "offsetLabelToMinutes s =
     (if sg = CHR ''+'' \<or> sg = CHR ''-'' then
        (case offset_forms r of
           None \<Rightarrow> None
         | Some (h, m) \<Rightarrow>
             if h > 14 \<or> (h = 14 \<and> m \<noteq> 0) \<or> m \<ge> 60 then None
             else Some ((if sg = CHR ''-'' then - 1 else 1) * int (h * 60 + m)))
      else None)"
proof -
  have ne: "s \<noteq> []" using assms by auto
  show ?thesis
  proof (cases "case hours_then_tail 2 r of Some g \<Rightarrow> Some g | None \<Rightarrow> hours_then_tail 1 r")
    case None
    with assms ne hours_forms [of r] show ?thesis
      by (simp add: offsetLabelToMinutes_def match_offset_Cons)
  next
    case (Some g)
    with assms ne hours_forms [of r] show ?thesis
      by (cases g) (auto simp: offsetLabelToMinutes_def match_offset_Cons
          groups_value_def Let_def split: option.splits)
  qed
qed

text \<open>
  Claim C8, as amended.  For every string, \<^verbatim>\<open>offsetLabelToMinutes\<close> is the parser of
  the specification over six forms: after the label is stripped, a sign followed by
  \<open>H\<close>, \<open>HH\<close>, \<open>H:MM\<close>, \<open>HH:MM\<close>, \<open>HMM\<close> or \<open>HHMM\<close> is mapped to
  sign \<open>\<cdot>\<close> (hours \<open>\<cdot>\<close> 60 + minutes), and no value is returned exactly when the shape is
  none of the six, or hours exceed 14, or hours are 14 with minutes, or minutes reach 60.
\<close>

theorem offsetLabelToMinutes_forms:
  "offsetLabelToMinutes s = minutes_of_forms offset_forms s"
proof (cases "strip_label s")
  case Nil
  then show ?thesis
    by (simp add: offsetLabelToMinutes_Nil minutes_of_forms_def)
next
  case (Cons sg r)
  then show ?thesis
    by (simp add: offsetLabelToMinutes_Cons [OF Cons] minutes_of_forms_def)
qed

text \<open>
  The theorem at concrete labels: a parenthesised label with a prefix, a bare hour, the
  largest offset, and four labels that are refused (the last because parentheses are
  stripped only together with \<^verbatim>\<open>UTC\<close> or \<^verbatim>\<open>GMT\<close>).
\<close>

theorem offsetLabelToMinutes_forms_witness:
  "minutes_of_forms offset_forms ''(UTC+05:30)'' = Some 330
   \<and> minutes_of_forms offset_forms ''GMT-4'' = Some (- 240)
   \<and> minutes_of_forms offset_forms ''+1400'' = Some 840
   \<and> minutes_of_forms offset_forms ''+14:30'' = None
   \<and> minutes_of_forms offset_forms ''+15'' = None
   \<and> minutes_of_forms offset_forms ''-0560'' = None
   \<and> minutes_of_forms offset_forms ''(+02:00)'' = None"
  by (simp add: offsetLabelToMinutes_forms [symmetric] offset_eval)

text \<open>
  Claim C8 as stated fails: \<^verbatim>\<open>+5:30\<close> has none of the four forms \<open>H\<close>, \<open>HH\<close>,
  \<open>HH:MM\<close>, \<open>HHMM\<close>, so the parser over four forms returns no value, and the code
  returns 330 minutes.
\<close>

theorem offsetLabelToMinutes_four_forms_counterexample:
  "minutes_of_forms offset_forms4 ''+5:30'' = None
   \<and> offsetLabelToMinutes ''+5:30'' = Some 330"
  by (simp add: offset_eval minutes_of_forms_def offset_forms4_def)

section \<open>Numbers as text\<close>

text \<open>\<^verbatim>\<open>String(n)\<close> for a natural number, and \<^verbatim>\<open>padStart\<close>.\<close>

fun digits_of :: "nat \<Rightarrow> string" where
  "digits_of n =
     (if n < 10 then [''0123456789'' ! n]
      else digits_of (n div 10) @ [''0123456789'' ! (n mod 10)])"

declare digits_of.simps [simp del]

definition padStart :: "nat \<Rightarrow> char \<Rightarrow> string \<Rightarrow> string" where
  "padStart n c s = replicate (n - length s) c @ s"

definition pad2 :: "nat \<Rightarrow> string" where
  "pad2 v = padStart 2 CHR ''0'' (digits_of v)"

section \<open>Time values\<close>

text \<open>
  A time value is a number of milliseconds since the epoch, an \<^typ>\<open>int\<close>.  The functions
  below are those of the language standard: \<^verbatim>\<open>MakeDay\<close> (whose month may lie outside
  0..11 and is carried into the year), \<^verbatim>\<open>MakeTime\<close>, \<^verbatim>\<open>MakeDate\<close> and \<^verbatim>\<open>Date.UTC\<close>,
  which reads a year from 0 to 99 as 1900 plus that year.  The fields the parsers pass
  have at most four digits for the year and two for every other field, far inside the
  range where \<^verbatim>\<open>TimeClip\<close> changes nothing.
\<close>

definition msPerDay :: int where
  "msPerDay = 86400000"

definition DayFromYear :: "int \<Rightarrow> int" where
  "DayFromYear y =
     365 * (y - 1970) + (y - 1969) div 4 - (y - 1901) div 100 + (y - 1601) div 400"

definition InLeapYear :: "int \<Rightarrow> bool" where
  "InLeapYear y \<longleftrightarrow> y mod 4 = 0 \<and> (y mod 100 \<noteq> 0 \<or> y mod 400 = 0)"

definition month_start :: "int \<Rightarrow> nat \<Rightarrow> int" where
  "month_start y mn =
     [0, 31, 59, 90, 120, 151, 181, 212, 243, 273, 304, 334] ! mn
     + (if InLeapYear y \<and> 2 \<le> mn then 1 else 0)"

definition MakeDay :: "int \<Rightarrow> int \<Rightarrow> int \<Rightarrow> int" where
  "MakeDay y m dt =
     (let ym = y + m div 12; mn = nat (m mod 12)
      in DayFromYear ym + month_start ym mn + dt - 1)"

definition MakeTime :: "int \<Rightarrow> int \<Rightarrow> int \<Rightarrow> int" where
  "MakeTime h m s = h * 3600000 + m * 60000 + s * 1000"

definition MakeDate :: "int \<Rightarrow> int \<Rightarrow> int" where
  "MakeDate dy tm = dy * msPerDay + tm"

definition Date_UTC :: "int \<Rightarrow> int \<Rightarrow> int \<Rightarrow> int \<Rightarrow> int \<Rightarrow> int \<Rightarrow> int" where
  "Date_UTC y m dt h mi s =
     (let yr = (if 0 \<le> y \<and> y \<le> 99 then 1900 + y else y)
      in MakeDate (MakeDay yr m dt) (MakeTime h mi s))"

text \<open>
  The calendar date of a day number (days since the epoch): year, month from 1 and day
  of the month, in the proleptic Gregorian calendar, as \<^verbatim>\<open>YearFromTime\<close>,
  \<^verbatim>\<open>MonthFromTime\<close> and \<^verbatim>\<open>DateFromTime\<close> give them.
\<close>

definition civil_from_days :: "int \<Rightarrow> int \<times> nat \<times> nat" where
  "civil_from_days z =
     (let z' = z + 719468;
          era = z' div 146097;
          doe = z' - era * 146097;
          yoe = (doe - doe div 1460 + doe div 36524 - doe div 146096) div 365;
          doy = doe - (365 * yoe + yoe div 4 - yoe div 100);
          mp = (5 * doy + 2) div 153;
          d = doy - (153 * mp + 2) div 5 + 1;
          m = (if mp < 10 then mp + 3 else mp - 9)
      in (yoe + era * 400 + (if m \<le> 2 then 1 else 0), nat m, nat d))"

text \<open>
  A \<^verbatim>\<open>Date\<close> object with the two properties the library hangs on it: \<^verbatim>\<open>tz\<close>
  (\<open>None\<close> when the property is absent) and \<^verbatim>\<open>dateOnly\<close>.
\<close>

record jsdate =
  time :: int
  tz :: "string option"
  dateOnly :: bool

definition new_Date :: "int \<Rightarrow> jsdate" where
  "new_Date ms = \<lparr>time = ms, tz = None, dateOnly = False\<rparr>"

text \<open>
  \<^verbatim>\<open>attachTz(date, tzid)\<close>: nothing happens for a missing or empty \<^verbatim>\<open>tzid\<close>; otherwise
  the date's \<^verbatim>\<open>tz\<close> is \<^verbatim>\<open>tzid\<close> afterwards, whether the property had to be redefined
  or held that value already.
\<close>

definition attachTz :: "jsdate \<Rightarrow> string option \<Rightarrow> jsdate" where
  "attachTz date tzid =
     (case tzid of
        None \<Rightarrow> date
      | Some z \<Rightarrow> if z = [] then date else date\<lparr>tz := Some z\<rparr>)"

section \<open>Offsets as labels\<close>

text \<open>
  \<^verbatim>\<open>minutesToOffset\<close> and \<^verbatim>\<open>minutesToEtcZone\<close>; the argument \<open>None\<close> is a value that is
  not a finite number (\<^verbatim>\<open>undefined\<close>), the result \<open>None\<close> is \<^verbatim>\<open>undefined\<close>.
\<close>

definition minutesToOffset :: "int option \<Rightarrow> string option" where
  "minutesToOffset totalMinutes =
     (case totalMinutes of
        None \<Rightarrow> None
      | Some t \<Rightarrow>
          let sg = (if t < 0 then ''-'' else ''+'');
              absolute = nat \<bar>t\<bar>
          in Some (sg @ pad2 (absolute div 60) @ '':'' @ pad2 (absolute mod 60)))"

definition minutesToEtcZone :: "int option \<Rightarrow> string option" where
  "minutesToEtcZone totalMinutes =
     (case totalMinutes of
        None \<Rightarrow> None
      | Some t \<Rightarrow>
          if t = 0 then Some ''Etc/GMT''
          else if t mod 60 \<noteq> 0 then None
          else Some (''Etc/GMT'' @ (if t > 0 then ''-'' else ''+'') @ digits_of (nat \<bar>t\<bar> div 60)))"

section \<open>Wall-clock strings\<close>

record wall_fields =
  year :: nat
  month :: nat
  day :: nat
  hour :: nat
  minute :: nat
  second :: nat

definition all_digits :: "string \<Rightarrow> bool" where
  "all_digits s \<longleftrightarrow> (\<forall>c \<in> set s. is_digit c)"

definition slice :: "nat \<Rightarrow> nat \<Rightarrow> string \<Rightarrow> string" where
  "slice i j s = take (j - i) (drop i s)"

text \<open>The six groups of a match, the last one absent when the seconds are not written.\<close>

definition fields_of :: "string \<Rightarrow> string \<Rightarrow> string \<Rightarrow> string \<Rightarrow> string \<Rightarrow> string option
    \<Rightarrow> wall_fields" where
  "fields_of m1 m2 m3 m4 m5 m6 =
     \<lparr>year = Number m1, month = Number m2, day = Number m3, hour = Number m4,
      minute = Number m5, second = (case m6 of Some s \<Rightarrow> Number s | None \<Rightarrow> 0)\<rparr>"

text \<open>The basic form \<^verbatim>\<open>/^(\d{4})(\d{2})(\d{2})T(\d{2})(\d{2})(\d{2})?$/\<close>.\<close>

definition match_basic :: "string \<Rightarrow> wall_fields option" where
  "match_basic s =
     (if (length s = 13 \<or> length s = 15) \<and> all_digits (slice 0 8 s) \<and> s ! 8 = CHR ''T''
         \<and> all_digits (drop 9 s)
      then Some (fields_of (slice 0 4 s) (slice 4 6 s) (slice 6 8 s) (slice 9 11 s)
                   (slice 11 13 s) (if length s = 15 then Some (slice 13 15 s) else None))
      else None)"

text \<open>
  The extended form
  \<^verbatim>\<open>/^(\d{4})-(\d{2})-(\d{2})[ T](\d{2}):(\d{2})(?::(\d{2}))?$/\<close>.
\<close>

definition match_extended :: "string \<Rightarrow> wall_fields option" where
  "match_extended s =
     (if (length s = 16 \<or> length s = 19)
         \<and> all_digits (slice 0 4 s) \<and> s ! 4 = CHR ''-''
         \<and> all_digits (slice 5 7 s) \<and> s ! 7 = CHR ''-''
         \<and> all_digits (slice 8 10 s) \<and> (s ! 10 = CHR '' '' \<or> s ! 10 = CHR ''T'')
         \<and> all_digits (slice 11 13 s) \<and> s ! 13 = CHR '':''
         \<and> all_digits (slice 14 16 s)
         \<and> (length s = 19 \<longrightarrow> s ! 16 = CHR '':'' \<and> all_digits (slice 17 19 s))
      then Some (fields_of (slice 0 4 s) (slice 5 7 s) (slice 8 10 s) (slice 11 13 s)
                   (slice 14 16 s) (if length s = 19 then Some (slice 17 19 s) else None))
      else None)"

section \<open>\<^verbatim>\<open>parseWithOffset\<close>\<close>

datatype js_error = TypeError string | RangeError string

text \<open>
  \<^verbatim>\<open>parseWithOffset(yyyymmddThhmmss, offset)\<close> for two strings.  \<open>Inr None\<close> is the
  return of \<^verbatim>\<open>undefined\<close>, \<open>Inl e\<close> the exception \<open>e\<close>.  The basic form is tried first,
  the extended form second.
\<close>

definition parseWithOffset :: "string \<Rightarrow> string \<Rightarrow> js_error + jsdate option" where
  "parseWithOffset s offset =
     (case (case match_basic s of Some m \<Rightarrow> Some m | None \<Rightarrow> match_extended s) of
        None \<Rightarrow> Inr None
      | Some m \<Rightarrow>
          (case offsetLabelToMinutes offset of
             None \<Rightarrow> Inl (TypeError (''Invalid offset string: '' @ offset))
           | Some totalMinutes \<Rightarrow>
               let utcMs = Date_UTC (int (year m)) (int (month m) - 1) (int (day m))
                             (int (hour m)) (int (minute m)) (int (second m))
                           - totalMinutes * 60000;
                   normalizedOffset = minutesToOffset (Some totalMinutes)
               in Inr (Some (attachTz (new_Date utcMs) normalizedOffset))))"

lemmas calendar_eval = Date_UTC_def MakeDate_def MakeDay_def MakeTime_def DayFromYear_def
  month_start_def InLeapYear_def msPerDay_def

lemmas parse_eval = parseWithOffset_def match_basic_def match_extended_def fields_of_def
  slice_def all_digits_def new_Date_def attachTz_def minutesToOffset_def pad2_def
  padStart_def digits_of.simps

text \<open>
  Claim C10.  \<^verbatim>\<open>parseWithOffset\<close> returns \<^verbatim>\<open>undefined\<close> exactly when the date-time
  string matches neither the basic nor the extended pattern, whatever the offset is; and
  it throws, exactly when the string matches one of them and the offset has no value in
  minutes, the \<^verbatim>\<open>TypeError\<close> whose message is \<^verbatim>\<open>Invalid offset string: \<close> followed by
  the offset.
\<close>

theorem parseWithOffset_undefined_or_throws:
  "(parseWithOffset s offset = Inr None)
     = (match_basic s = None \<and> match_extended s = None)
   \<and> (parseWithOffset s offset = Inl e)
     = ((match_basic s \<noteq> None \<or> match_extended s \<noteq> None)
        \<and> offsetLabelToMinutes offset = None
        \<and> e = TypeError (''Invalid offset string: '' @ offset))"
  by (auto simp: parseWithOffset_def Let_def split: option.splits)

text \<open>
  The theorem at a date without a time (no instant, although the offset is no offset
  either) and at a well-formed wall time with the same offset (the exception).
\<close>

theorem parseWithOffset_undefined_or_throws_witness:
  "parseWithOffset ''2023-11-08'' ''bogus'' = Inr None
   \<and> parseWithOffset ''20231108T1600'' ''bogus''
       = Inl (TypeError ''Invalid offset string: bogus'')"
proof -
  have a: "match_basic ''2023-11-08'' = None \<and> match_extended ''2023-11-08'' = None"
    by (simp add: match_basic_def match_extended_def)
  have b: "match_basic ''20231108T1600'' \<noteq> None"
    by (simp add: match_basic_def slice_def all_digits_def is_digit_def)
  have c: "offsetLabelToMinutes ''bogus'' = None"
    by (simp add: offset_eval)
  from a b c
    parseWithOffset_undefined_or_throws [of "''2023-11-08''" "''bogus''"]
    parseWithOffset_undefined_or_throws
      [of "''20231108T1600''" "''bogus''" "TypeError ''Invalid offset string: bogus''"]
  show ?thesis by simp
qed

section \<open>The runtime: aliases and the time zone database\<close>

text \<open>
  What a zone's rules say, as far as the library reads them: the offset from UTC in
  milliseconds in force at an instant, and the list of the offsets the rules ever use.
\<close>

record tzrules =
  offsetAt :: "int \<Rightarrow> int"
  offsets :: "int list"

text \<open>
  What the functions read and do not define themselves: the module's \<^verbatim>\<open>aliasMap\<close>
  (written by \<^verbatim>\<open>linkAlias\<close> only), the time zone database of the runtime, which
  \<^verbatim>\<open>Intl.DateTimeFormat\<close> and \<^verbatim>\<open>Temporal\<close> share (\<open>zones\<close>: the rules of an
  identifier the runtime knows, \<open>None\<close> for one it refuses), the host's own zone
  (\<^verbatim>\<open>guessLocalZone()\<close> and the local-time offset of \<^verbatim>\<open>Date\<close>), and the table
  \<^verbatim>\<open>windowsZones.json\<close>, whose file is not part of the sources: label and list of IANA
  names, in the order \<^verbatim>\<open>Object.entries\<close> enumerates them.

  \<^verbatim>\<open>validIanaCache\<close> is not modelled: an entry is written by the very check it stands
  for, so a hit returns what the check returns.
\<close>

record runtime =
  aliasMap :: "string \<rightharpoonup> string"
  zones :: "string \<Rightarrow> tzrules option"
  localZone :: string
  localTZA :: "int \<Rightarrow> int"
  windowsZones :: "(string \<times> string list) list"

text \<open>\<^verbatim>\<open>resolveZone\<close>: \<^verbatim>\<open>aliasMap.get(zone) || zone\<close>, an empty string being falsy.\<close>

definition resolveZone :: "runtime \<Rightarrow> string \<Rightarrow> string" where
  "resolveZone rt zone =
     (if zone = [] then zone
      else case aliasMap rt zone of
        None \<Rightarrow> zone
      | Some a \<Rightarrow> if a = [] then zone else a)"

definition isValidIana :: "runtime \<Rightarrow> string \<Rightarrow> bool" where
  "isValidIana rt zone =
     (if zone = [] then False
      else let t = resolveZone rt zone
           in if t = [] then False else zones rt t \<noteq> None)"

definition findExactZoneMatch :: "runtime \<Rightarrow> string option \<Rightarrow> string option" where
  "findExactZoneMatch rt t =
     (case t of
        None \<Rightarrow> None
      | Some s \<Rightarrow>
          if s = [] then None
          else let z = resolveZone rt s in if isValidIana rt z then Some z else None)"

section \<open>Wall time to instant: \<^verbatim>\<open>Temporal\<close> with the disambiguation \<^verbatim>\<open>later\<close>\<close>

text \<open>
  \<^verbatim>\<open>Temporal.PlainDateTime.from(fields)\<close> with its default overflow \<^verbatim>\<open>constrain\<close>: a
  month or a day of 0 is a \<^verbatim>\<open>RangeError\<close>, every field above its range is lowered to
  the range's end.  The result is the wall time as milliseconds, counted as if the
  wall clock showed UTC.
\<close>

definition daysInMonth :: "int \<Rightarrow> nat \<Rightarrow> nat" where
  "daysInMonth y m =
     (if m = 2 then (if InLeapYear y then 29 else 28)
      else if m \<in> {4, 6, 9, 11} then 30 else 31)"

definition plain_from :: "wall_fields \<Rightarrow> js_error + int" where
  "plain_from f =
     (if month f = 0 \<or> day f = 0 then Inl (RangeError ''value out of range'')
      else let y = int (year f);
               m = min 12 (month f);
               d = min (daysInMonth y m) (day f)
           in Inr (MakeDate (MakeDay y (int m - 1) (int d))
                     (MakeTime (int (min 23 (hour f))) (int (min 59 (minute f)))
                        (int (min 59 (second f))))))"

text \<open>
  A time zone identifier as \<^verbatim>\<open>Temporal\<close> reads it: an offset \<^verbatim>\<open>\<plusminus>HH\<close>, \<^verbatim>\<open>\<plusminus>HH:MM\<close>
  or \<^verbatim>\<open>\<plusminus>HHMM\<close> (hours to 23, minutes to 59) is the zone of that fixed offset; any
  other identifier is looked up in the database.
\<close>

definition offset_identifier :: "string \<Rightarrow> int option" where
  "offset_identifier s =
     (case s of
        sg # a # b # r \<Rightarrow>
          if (sg = CHR ''+'' \<or> sg = CHR ''-'') \<and> is_digit a \<and> is_digit b
             \<and> two_digit a b \<le> 23
          then (case (case r of k # r' \<Rightarrow> if k = CHR '':'' then r' else r | [] \<Rightarrow> r) of
                  [] \<Rightarrow> if r = [] then Some ((if sg = CHR ''-'' then - 1 else 1)
                                              * int (two_digit a b * 60)) else None
                | [c, d] \<Rightarrow>
                    if is_digit c \<and> is_digit d \<and> two_digit c d \<le> 59
                    then Some ((if sg = CHR ''-'' then - 1 else 1)
                               * int (two_digit a b * 60 + two_digit c d))
                    else None
                | _ \<Rightarrow> None)
          else None
      | _ \<Rightarrow> None)"

definition fixed_zone :: "int \<Rightarrow> tzrules" where
  "fixed_zone minutes = \<lparr>offsetAt = (\<lambda>_. minutes * 60000), offsets = [minutes * 60000]\<rparr>"

definition temporal_zone :: "runtime \<Rightarrow> string \<Rightarrow> tzrules option" where
  "temporal_zone rt ident =
     (case offset_identifier ident of
        Some minutes \<Rightarrow> Some (fixed_zone minutes)
      | None \<Rightarrow> zones rt ident)"

text \<open>
  The instants at which the zone's wall clock shows the wall time \<open>w\<close>, in ascending
  order: none inside a gap, two inside a fold.
\<close>

definition possible_instants :: "tzrules \<Rightarrow> int \<Rightarrow> int list" where
  "possible_instants z w =
     sort (remdups (filter (\<lambda>t. offsetAt z t = w - t) (map (\<lambda>off. w - off) (offsets z))))"

text \<open>
  The disambiguation \<^verbatim>\<open>later\<close>: of the possible instants the last; when there is none,
  the wall time is moved forward by the difference of the offsets in force one day after
  and one day before it, and the last possible instant of the moved wall time is taken.
\<close>

definition later_instant :: "tzrules \<Rightarrow> int \<Rightarrow> int option" where
  "later_instant z w =
     (case possible_instants z w of
        [] \<Rightarrow>
          (let shift = offsetAt z (w + msPerDay) - offsetAt z (w - msPerDay)
           in case possible_instants z (w + shift) of
                [] \<Rightarrow> None
              | ps \<Rightarrow> Some (last ps))
      | ps \<Rightarrow> Some (last ps))"

section \<open>\<^verbatim>\<open>parseDateTimeInZone\<close>\<close>

text \<open>
  The extended form is tried first here.  \<open>Inr None\<close> is \<^verbatim>\<open>undefined\<close>; \<open>Inl e\<close> is an
  exception of \<^verbatim>\<open>Temporal\<close>, which the function does not catch.  The zone handed to
  \<^verbatim>\<open>Temporal\<close> is the resolved one, the zone attached to the result is the argument.
\<close>

definition parseDateTimeInZone :: "runtime \<Rightarrow> string \<Rightarrow> string \<Rightarrow> js_error + jsdate option" where
  "parseDateTimeInZone rt s zone =
     (case (case match_extended s of Some m \<Rightarrow> Some m | None \<Rightarrow> match_basic s) of
        None \<Rightarrow> Inr None
      | Some wall \<Rightarrow>
          let t = resolveZone rt zone
          in if \<not> isValidIana rt t then Inr None
             else case plain_from wall of
               Inl e \<Rightarrow> Inl e
             | Inr w \<Rightarrow>
                 (case temporal_zone rt t of
                    None \<Rightarrow> Inl (RangeError ''unknown time zone'')
                  | Some z \<Rightarrow>
                      (case later_instant z w of
                         None \<Rightarrow> Inl (RangeError ''no instant'')
                       | Some epochMs \<Rightarrow> Inr (Some (attachTz (new_Date epochMs) (Some zone))))))"

subsection \<open>A runtime to compute with\<close>

text \<open>
  The rules of \<^verbatim>\<open>America/Los_Angeles\<close> from March 2023 to March 2025 (the offset is
  -8 h, and -7 h between the second Sunday of March and the first Sunday of
  November), \<^verbatim>\<open>Europe/Berlin\<close> between its changes of October 2025 and March 2026,
  and \<^verbatim>\<open>Etc/GMT\<close>.
\<close>

definition los_angeles :: tzrules where
  "los_angeles =
     \<lparr>offsetAt = (\<lambda>t. if (1678615200000 \<le> t \<and> t < 1699174800000)
                          \<or> (1710064800000 \<le> t \<and> t < 1730624400000)
                       then - 25200000 else - 28800000),
      offsets = [- 28800000, - 25200000]\<rparr>"

definition berlin :: tzrules where
  "berlin =
     \<lparr>offsetAt = (\<lambda>t. if 1761440400000 \<le> t \<and> t < 1774746000000
                       then 3600000 else 7200000),
      offsets = [3600000, 7200000]\<rparr>"

definition sample_runtime :: runtime where
  "sample_runtime =
     \<lparr>aliasMap = [''Etc/Unknown'' \<mapsto> ''Etc/GMT''],
      zones = (\<lambda>z. if z = ''America/Los_Angeles'' then Some los_angeles
                    else if z = ''Europe/Berlin'' then Some berlin
                    else if z = ''Etc/GMT'' then Some (fixed_zone 0)
                    else None),
      localZone = ''Etc/GMT'',
      localTZA = (\<lambda>_. 0),
      windowsZones = [(''W. Europe Standard Time'', [''Europe/Berlin'']),
                      (''(UTC-08:00) Pacific Time (US & Canada)'', [''America/Los_Angeles''])]\<rparr>"

lemma digit_char_facts:
  "\<forall>k<10. is_digit (''0123456789'' ! k) \<and> digit_value (''0123456789'' ! k) = k
          \<and> \<not> is_space (''0123456789'' ! k)
          \<and> ''0123456789'' ! k \<noteq> CHR '')'' \<and> ''0123456789'' ! k \<noteq> CHR '':''"
  by (simp add: numeral_eq_Suc All_less_Suc is_digit_def digit_value_def is_space_def)

lemma pad2_two_digits:
  assumes "n < 100"
  shows "pad2 n = [''0123456789'' ! (n div 10), ''0123456789'' ! (n mod 10)]"
proof (cases "n < 10")
  case True
  then show ?thesis
    by (simp add: pad2_def padStart_def digits_of.simps)
next
  case False
  with assms have "n div 10 < 10" by simp
  with False show ?thesis
    by (simp add: pad2_def padStart_def digits_of.simps [of n] digits_of.simps [of "n div 10"])
qed

text \<open>The normalized label of an offset: a sign, two digits, a colon, two digits.\<close>

definition is_offset_label :: "string \<Rightarrow> bool" where
  "is_offset_label l =
     (case l of
        [sg, a, b, k, c, d] \<Rightarrow>
          (sg = CHR ''+'' \<or> sg = CHR ''-'') \<and> is_digit a \<and> is_digit b \<and> k = CHR '':''
          \<and> is_digit c \<and> is_digit d
      | _ \<Rightarrow> False)"

lemma offsetLabelToMinutes_range:
  assumes "offsetLabelToMinutes s = Some t"
  shows "\<bar>t\<bar> \<le> 840"
proof (cases "strip_label s")
  case Nil
  with assms show ?thesis by (simp add: offsetLabelToMinutes_Nil)
next
  case (Cons sg r)
  with assms show ?thesis
    by (auto simp: offsetLabelToMinutes_Cons [OF Cons] split: if_splits option.splits)
qed

lemma digit_not_space: "is_digit c \<Longrightarrow> \<not> is_space c"
  by (auto simp: is_digit_def is_space_def)

lemma digit_not_paren: "is_digit c \<Longrightarrow> c \<noteq> CHR '')''"
  by (auto simp: is_digit_def)

lemma strip_label_offset_label:
  assumes "is_offset_label l"
  shows "strip_label l = l"
proof -
  from assms obtain sg a b c d where
    l: "l = [sg, a, b, CHR '':'', c, d]" and sg: "sg = CHR ''+'' \<or> sg = CHR ''-''"
    and d: "is_digit d"
    by (auto simp: is_offset_label_def split: list.splits)
  from sg have s1: "\<not> is_space sg" by (auto simp: is_space_def)
  from d have s2: "\<not> is_space d" and s3: "d \<noteq> CHR '')''"
    by (simp_all add: digit_not_space digit_not_paren)
  from sg s1 s2 s3 show ?thesis
    unfolding l by (auto simp: strip_label_def trim_def strip_utc_prefix_def strip_close_def)
qed

lemma minutesToOffset_normal:
  assumes "\<bar>t\<bar> \<le> 840"
  shows "\<exists>l. minutesToOffset (Some t) = Some l \<and> is_offset_label l
             \<and> offsetLabelToMinutes l = Some t"
proof -
  define n where "n = nat \<bar>t\<bar>"
  define h where "h = n div 60"
  define m where "m = n mod 60"
  define D where "D = (\<lambda>k. ''0123456789'' ! k)"
  define sg where "sg = (if t < 0 then CHR ''-'' else CHR ''+'')"
  define l where "l = [sg, D (h div 10), D (h mod 10), CHR '':'', D (m div 10), D (m mod 10)]"
  have n: "n \<le> 840" using assms by (simp add: n_def)
  have h: "h \<le> 14" using n by (simp add: h_def)
  have m: "m < 60" by (simp add: m_def)
  have n_eq: "n = h * 60 + m" by (simp add: h_def m_def)
  have hm: "h = 14 \<Longrightarrow> m = 0" using n n_eq by arith
  have small: "h div 10 < 10" "h mod 10 < 10" "m div 10 < 10" "m mod 10 < 10"
    using h m by simp_all
  have ph: "pad2 h = [D (h div 10), D (h mod 10)]"
    using h by (simp add: pad2_two_digits D_def)
  have pm: "pad2 m = [D (m div 10), D (m mod 10)]"
    using m by (simp add: pad2_two_digits D_def)
  have lab: "minutesToOffset (Some t) = Some l"
    by (simp add: minutesToOffset_def Let_def ph pm l_def sg_def
        n_def [symmetric] h_def [symmetric] m_def [symmetric])
  have dig: "is_digit (D (h div 10))" "is_digit (D (h mod 10))"
    "is_digit (D (m div 10))" "is_digit (D (m mod 10))"
    using small digit_char_facts by (simp_all add: D_def)
  have val: "two_digit (D (h div 10)) (D (h mod 10)) = h"
    "two_digit (D (m div 10)) (D (m mod 10)) = m"
    using small digit_char_facts by (simp_all add: D_def two_digit_def)
  have shape: "is_offset_label l"
    using dig by (simp add: is_offset_label_def l_def sg_def)
  have forms: "offset_forms [D (h div 10), D (h mod 10), CHR '':'', D (m div 10), D (m mod 10)]
               = Some (h, m)"
    using dig val by (simp add: offset_forms_def)
  have "int n = \<bar>t\<bar>" by (simp add: n_def)
  then have t_eq: "t = (if t < 0 then - 1 else 1) * int (h * 60 + m)"
    unfolding n_eq by (cases "t < 0") simp_all
  have "strip_label l = sg # [D (h div 10), D (h mod 10), CHR '':'', D (m div 10), D (m mod 10)]"
    using strip_label_offset_label [OF shape] by (simp add: l_def)
  from offsetLabelToMinutes_Cons [OF this] forms h m hm t_eq
  have "offsetLabelToMinutes l = Some t"
    by (auto simp: sg_def)
  with lab shape show ?thesis by blast
qed

lemma attachTz_Some: "z \<noteq> [] \<Longrightarrow> tz (attachTz (new_Date ms) (Some z)) = Some z"
  by (simp add: attachTz_def new_Date_def)

lemma isValidIana_nonempty: "isValidIana rt z \<Longrightarrow> z \<noteq> []"
  by (auto simp: isValidIana_def)

lemma resolveZone_nonempty: "resolveZone rt zone \<noteq> [] \<Longrightarrow> zone \<noteq> []"
  by (auto simp: resolveZone_def)

lemma parseWithOffset_tz:
  assumes "parseWithOffset s offset = Inr (Some d)"
  shows "\<exists>t l. offsetLabelToMinutes offset = Some t \<and> minutesToOffset (Some t) = Some l
             \<and> tz d = Some l \<and> is_offset_label l \<and> offsetLabelToMinutes l = Some t"
proof -
  from assms obtain t where t: "offsetLabelToMinutes offset = Some t"
    and d: "\<exists>ms. d = attachTz (new_Date ms) (minutesToOffset (Some t))"
    by (auto simp: parseWithOffset_def Let_def split: option.splits)
  from minutesToOffset_normal [OF offsetLabelToMinutes_range [OF t]] obtain l where
    l: "minutesToOffset (Some t) = Some l" "is_offset_label l" "offsetLabelToMinutes l = Some t"
    by blast
  from l(2) have "l \<noteq> []" by (auto simp: is_offset_label_def)
  with d l(1) have "tz d = Some l" by (auto simp: attachTz_Some)
  with t l show ?thesis by blast
qed

lemma parseDateTimeInZone_tz:
  assumes "parseDateTimeInZone rt s zone = Inr (Some d)"
  shows "tz d = Some zone \<and> isValidIana rt (resolveZone rt zone)"
proof -
  from assms have v: "isValidIana rt (resolveZone rt zone)"
    and d: "\<exists>ms. d = attachTz (new_Date ms) (Some zone)"
    by (auto simp: parseDateTimeInZone_def Let_def split: option.splits if_splits sum.splits)
  from v have "zone \<noteq> []"
    using isValidIana_nonempty resolveZone_nonempty by blast
  with d v show ?thesis by (auto simp: attachTz_Some)
qed

text \<open>
  Claim C7, as amended.  An instant produced by \<^verbatim>\<open>parseWithOffset\<close> carries as \<^verbatim>\<open>tz\<close>
  the normalized label of its offset: the label \<^verbatim>\<open>minutesToOffset\<close> writes for the
  offset's minutes, of the shape sign, two digits, colon, two digits, which reads back as
  the same minutes.  An instant produced by \<^verbatim>\<open>parseDateTimeInZone\<close> carries as \<^verbatim>\<open>tz\<close>
  the zone string exactly as it was passed in, not the name its alias resolves to.
\<close>

theorem produced_instants_carry_tz:
  "(parseWithOffset s offset = Inr (Some d) \<longrightarrow>
      (\<exists>t l. offsetLabelToMinutes offset = Some t \<and> minutesToOffset (Some t) = Some l
             \<and> tz d = Some l \<and> is_offset_label l \<and> offsetLabelToMinutes l = Some t))
   \<and> (parseDateTimeInZone rt s' zone = Inr (Some d') \<longrightarrow>
        tz d' = Some zone \<and> isValidIana rt (resolveZone rt zone))"
  using parseWithOffset_tz parseDateTimeInZone_tz by blast

lemmas zone_eval = parseDateTimeInZone_def resolveZone_def isValidIana_def plain_from_def
  daysInMonth_def temporal_zone_def offset_identifier_def fixed_zone_def
  possible_instants_def later_instant_def

text \<open>
  The theorem at an offset written \<^verbatim>\<open>UTC-8\<close>, whose instant carries \<^verbatim>\<open>-08:00\<close>, and at
  a zone name of the database.
\<close>

theorem produced_instants_carry_tz_witness:
  "parseWithOffset ''20231108T160000'' ''UTC-8''
     = Inr (Some \<lparr>time = 1699488000000, tz = Some ''-08:00'', dateOnly = False\<rparr>)
   \<and> minutesToOffset (offsetLabelToMinutes ''UTC-8'') = Some ''-08:00''
   \<and> parseDateTimeInZone sample_runtime ''20231108T160000'' ''America/Los_Angeles''
     = Inr (Some \<lparr>time = 1699488000000, tz = Some ''America/Los_Angeles'', dateOnly = False\<rparr>)"
proof -
  have a: "parseWithOffset ''20231108T160000'' ''UTC-8''
     = Inr (Some \<lparr>time = 1699488000000, tz = Some ''-08:00'', dateOnly = False\<rparr>)"
    by code_simp
  have b: "parseDateTimeInZone sample_runtime ''20231108T160000'' ''America/Los_Angeles''
     = Inr (Some \<lparr>time = 1699488000000, tz = Some ''America/Los_Angeles'', dateOnly = False\<rparr>)"
    by code_simp
  from a b produced_instants_carry_tz
    [of "''20231108T160000''" "''UTC-8''"
        "\<lparr>time = 1699488000000, tz = Some ''-08:00'', dateOnly = False\<rparr>"
        sample_runtime "''20231108T160000''" "''America/Los_Angeles''"
        "\<lparr>time = 1699488000000, tz = Some ''America/Los_Angeles'', dateOnly = False\<rparr>"]
  show ?thesis by auto
qed

text \<open>
  Claim C7 as stated fails for an aliased zone: with \<^verbatim>\<open>Etc/Unknown\<close> linked to
  \<^verbatim>\<open>Etc/GMT\<close>, the instant produced for \<^verbatim>\<open>Etc/Unknown\<close> carries \<^verbatim>\<open>Etc/Unknown\<close>,
  while the name the zone resolves to, and the one the database knows, is \<^verbatim>\<open>Etc/GMT\<close>.
\<close>

theorem aliased_zone_tz_counterexample:
  "parseDateTimeInZone sample_runtime ''20250101T100000'' ''Etc/Unknown''
     = Inr (Some \<lparr>time = 1735725600000, tz = Some ''Etc/Unknown'', dateOnly = False\<rparr>)
   \<and> resolveZone sample_runtime ''Etc/Unknown'' = ''Etc/GMT''
   \<and> zones sample_runtime ''Etc/Unknown'' = None
   \<and> zones sample_runtime ''Etc/GMT'' \<noteq> None"
  by code_simp

subsection \<open>What \<^verbatim>\<open>later\<close> does at a change of offset\<close>












section \<open>Windows display labels: \<^verbatim>\<open>mapWindowsZone\<close>\<close>

text \<open>
  \<^verbatim>\<open>toLowerCase\<close> on code units below 256: the ASCII capitals and the Latin-1 capitals
  (all of 192..222 but the multiplication sign) move up by 32.
\<close>

definition to_lower :: "char \<Rightarrow> char" where
  "to_lower c =
     (let n = (of_char c :: nat)
      in if (65 \<le> n \<and> n \<le> 90) \<or> (192 \<le> n \<and> n \<le> 222 \<and> n \<noteq> 215)
         then char_of (n + 32) else c)"

text \<open>\<^verbatim>\<open>.replaceAll(/\s+/g, ' ')\<close>: every run of white space becomes one space.\<close>

function collapse_ws :: "string \<Rightarrow> string" where
  "collapse_ws [] = []"
| "collapse_ws (c # cs) =
     (if is_space c then CHR '' '' # collapse_ws (dropWhile is_space cs)
      else c # collapse_ws cs)"
  by pat_completeness auto
termination
  by (relation "measure length") (auto simp: less_Suc_eq_le length_dropWhile_le)

definition normalizeWindowsLabel :: "string \<Rightarrow> string" where
  "normalizeWindowsLabel label = map to_lower (trim (collapse_ws label))"

definition starts_with :: "string \<Rightarrow> string \<Rightarrow> bool" where
  "starts_with p s \<longleftrightarrow> take (length p) s = p"

text \<open>
  \<^verbatim>\<open>.replace(/^\(utc[^)]*\)\s*/i, '')\<close> and its twin for \<^verbatim>\<open>gmt\<close>: an opening
  parenthesis, the three letters in either case, everything up to the first closing
  parenthesis, and the white space after it; without a closing parenthesis nothing
  matches.
\<close>

definition strip_paren_prefix :: "string \<Rightarrow> string \<Rightarrow> string" where
  "strip_paren_prefix letters s =
     (if starts_with (CHR ''('' # letters) (map to_lower (take 4 s))
      then (case dropWhile (\<lambda>c. c \<noteq> CHR '')'') (drop 4 s) of
              [] \<Rightarrow> s
            | _ # r \<Rightarrow> dropWhile is_space r)
      else s)"

text \<open>\<^verbatim>\<open>String.prototype.split(',')\<close>.\<close>

fun split_commas :: "string \<Rightarrow> string list" where
  "split_commas [] = [[]]"
| "split_commas (c # cs) =
     (if c = CHR '','' then [] # split_commas cs
      else (case split_commas cs of
              seg # segs \<Rightarrow> (c # seg) # segs
            | [] \<Rightarrow> [[c]]))"

text \<open>
  \<^verbatim>\<open>buildWindowsLabelIndex\<close>: for every entry of the table, in order, the label itself,
  the label without its \<^verbatim>\<open>(UTC...)\<close> or \<^verbatim>\<open>(GMT...)\<close> prefix when it has one, and the
  segments of the latter between commas; each variant is normalized and recorded unless
  it is empty or recorded already.  The index is the list of the recorded pairs, and
  \<^const>\<open>map_of\<close> returns the first pair of a key, which is the one recorded.
\<close>

definition label_variants :: "string \<Rightarrow> string list" where
  "label_variants label =
     (let withoutOffset = strip_paren_prefix ''gmt'' (strip_paren_prefix ''utc'' label)
      in label #
         (if withoutOffset \<noteq> label
          then withoutOffset #
               (if CHR '','' \<in> set withoutOffset then split_commas withoutOffset else [])
          else []))"

definition windowsLabelIndex :: "(string \<times> string list) list \<Rightarrow> (string \<times> string list) list" where
  "windowsLabelIndex source =
     filter (\<lambda>(k, _). k \<noteq> [])
       (concat (map (\<lambda>(label, data). map (\<lambda>v. (normalizeWindowsLabel v, data))
                                          (label_variants label)) source))"

text \<open>
  \<^verbatim>\<open>mapWindowsZone(label)\<close>: the exact label, then the normalized label, then each
  segment of the label between commas; the first entry found with a non-empty list of
  names decides, and gives the first name of its list.  \<open>None\<close> is \<^verbatim>\<open>null\<close>.
\<close>

definition first_iana :: "string list option \<Rightarrow> string option" where
  "first_iana entry = (case entry of Some (z # _) \<Rightarrow> Some z | _ \<Rightarrow> None)"

definition mapWindowsZone :: "runtime \<Rightarrow> string \<Rightarrow> string option" where
  "mapWindowsZone rt label =
     (let index = windowsLabelIndex (windowsZones rt)
      in case first_iana (map_of (windowsZones rt) label) of
           Some z \<Rightarrow> Some z
         | None \<Rightarrow>
             (case first_iana (map_of index (normalizeWindowsLabel label)) of
                Some z \<Rightarrow> Some z
              | None \<Rightarrow>
                  if CHR '','' \<in> set label
                  then (case List.map_filter
                               (\<lambda>seg. first_iana (map_of index (normalizeWindowsLabel seg)))
                               (split_commas label) of
                          z # _ \<Rightarrow> Some z
                        | [] \<Rightarrow> None)
                  else None))"

section \<open>The zone resolver: \<^verbatim>\<open>resolveTZID\<close>\<close>

text \<open>
  \<^verbatim>\<open>.replace(/^"(.*)"$/, '$1')\<close>: one pair of double quotes around the whole value is
  removed, provided no line terminator stands between them (the dot does not match one).
\<close>

definition dequote :: "string \<Rightarrow> string" where
  "dequote s =
     (if 2 \<le> length s \<and> hd s = CHR 0x22 \<and> last s = CHR 0x22
         \<and> (\<forall>c \<in> set (butlast (tl s)). c \<noteq> CHR 0x0A \<and> c \<noteq> CHR 0x0D)
      then butlast (tl s) else s)"

text \<open>
  \<^verbatim>\<open>tz.match(/([+-]\d{1,2}:\d{2})/)\<close>: the leftmost place where a sign, one or two digits,
  a colon and two digits stand; two digits are tried before one.
\<close>

definition fragment_at :: "string \<Rightarrow> string option" where
  "fragment_at s =
     (case s of
        sg # a # r \<Rightarrow>
          if (sg = CHR ''+'' \<or> sg = CHR ''-'') \<and> is_digit a then
            (case r of
               b # k # c # d # _ \<Rightarrow>
                 if is_digit b \<and> k = CHR '':'' \<and> is_digit c \<and> is_digit d
                 then Some [sg, a, b, k, c, d]
                 else if b = CHR '':'' \<and> is_digit k \<and> is_digit c then Some [sg, a, b, k, c]
                 else None
             | [k, c, d] \<Rightarrow>
                 if k = CHR '':'' \<and> is_digit c \<and> is_digit d then Some [sg, a, k, c, d]
                 else None
             | _ \<Rightarrow> None)
          else None
      | _ \<Rightarrow> None)"

fun find_fragment :: "string \<Rightarrow> string option" where
  "find_fragment [] = None"
| "find_fragment (c # cs) =
     (case fragment_at (c # cs) of Some f \<Rightarrow> Some f | None \<Rightarrow> find_fragment cs)"

text \<open>A value handed to the resolver: a string, or anything that is not a string.\<close>

datatype js_value = JString string | JOther

record tz_descriptor =
  original :: "string option"
  iana :: "string option"
  offset :: "string option"
  offsetMinutes :: "int option"
  etc :: "string option"

definition undefined_descriptor :: tz_descriptor where
  "undefined_descriptor =
     \<lparr>original = None, iana = None, offset = None, offsetMinutes = None, etc = None\<rparr>"

text \<open>The host's zone stands in for the markers of a customized Microsoft zone.\<close>

definition custom_zone :: "runtime \<Rightarrow> string \<Rightarrow> string" where
  "custom_zone rt v =
     (if v = ''tzone://Microsoft/Custom'' \<or> starts_with ''Customized Time Zone'' v
         \<or> starts_with ''tzone://Microsoft/'' v
      then localZone rt else v)"

text \<open>The Windows mapping of a value with a space or a comma; an empty name maps nothing.\<close>

definition windows_mapped :: "runtime \<Rightarrow> string \<Rightarrow> string" where
  "windows_mapped rt t =
     (if t \<noteq> [] \<and> (CHR '' '' \<in> set t \<or> CHR '','' \<in> set t)
      then (case mapWindowsZone rt t of
              Some mapped \<Rightarrow> if mapped \<noteq> [] then mapped else t
            | None \<Rightarrow> t)
      else t)"

text \<open>
  The two offset steps: a value that starts with a parenthesis yields the offset of its
  first fragment, if any, and no zone name; any other value that reads as an offset label
  yields that offset and no zone name; the rest stays a zone name.  The result is the
  pair of \<^verbatim>\<open>offsetMinutes\<close> and \<^verbatim>\<open>tz\<close> (\<open>None\<close> for \<^verbatim>\<open>null\<close>).
\<close>

definition offset_steps :: "string \<Rightarrow> int option \<times> string option" where
  "offset_steps t =
     (if t \<noteq> [] \<and> starts_with ''('' t
      then (case find_fragment t of
              Some frag \<Rightarrow> (offsetLabelToMinutes frag, None)
            | None \<Rightarrow> (None, None))
      else if t \<noteq> []
      then (case offsetLabelToMinutes t of
              Some mins \<Rightarrow> (Some mins, None)
            | None \<Rightarrow> (None, Some t))
      else (None, Some t))"

definition resolveTZID :: "runtime \<Rightarrow> js_value \<Rightarrow> tz_descriptor" where
  "resolveTZID rt v =
     (case v of
        JOther \<Rightarrow> undefined_descriptor
      | JString s \<Rightarrow>
          if s = [] then undefined_descriptor
          else let t1 = dequote (custom_zone rt s);
                   (mins, t) = offset_steps (windows_mapped rt t1);
                   exact = findExactZoneMatch rt t
               in \<lparr>original = Some t1,
                   iana = (case exact of
                             Some z \<Rightarrow> Some z
                           | None \<Rightarrow>
                               (case t of
                                  Some t' \<Rightarrow> if t' \<noteq> [] \<and> isValidIana rt t' then Some t' else None
                                | None \<Rightarrow> None)),
                   offset = minutesToOffset mins,
                   offsetMinutes = mins,
                   etc = minutesToEtcZone mins\<rparr>)"














section \<open>The date key: \<^verbatim>\<open>getDateKey\<close>\<close>

text \<open>
  \<^verbatim>\<open>String(n)\<close> for an integer that is not negative, \<^verbatim>\<open>String(year)\<close> for the
  integer \<^verbatim>\<open>getFullYear()\<close> returns, and the year as ISO 8601
  writes it (\<^verbatim>\<open>toISOString\<close> and \<^verbatim>\<open>Temporal.PlainDate.prototype.toString\<close>): four digits
  from 0 to 9999, otherwise a sign and six digits.
\<close>

function digits_of_int :: "int \<Rightarrow> string" where
  "digits_of_int n =
     (if n < 10 then [''0123456789'' ! nat n]
      else digits_of_int (n div 10) @ [''0123456789'' ! nat (n mod 10)])"
  by pat_completeness auto
termination
  by (relation "measure nat") auto

declare digits_of_int.simps [simp del]

definition year_string :: "int \<Rightarrow> string" where
  "year_string y = (if y < 0 then ''-'' @ digits_of_int (- y) else digits_of_int y)"

definition iso_year :: "int \<Rightarrow> string" where
  "iso_year y =
     (if 0 \<le> y \<and> y \<le> 9999 then padStart 4 CHR ''0'' (digits_of_int y)
      else (if y < 0 then ''-'' else ''+'') @ padStart 6 CHR ''0'' (digits_of_int \<bar>y\<bar>))"

text \<open>
  The local calendar date of a time value, as \<^verbatim>\<open>getFullYear()\<close>, \<^verbatim>\<open>getMonth() + 1\<close> and
  \<^verbatim>\<open>getDate()\<close> give it in the host's zone, and the date in a zone of the database.
\<close>

definition local_date :: "runtime \<Rightarrow> int \<Rightarrow> int \<times> nat \<times> nat" where
  "local_date rt t = civil_from_days ((t + localTZA rt t) div msPerDay)"

definition zoned_date :: "tzrules \<Rightarrow> int \<Rightarrow> int \<times> nat \<times> nat" where
  "zoned_date z t = civil_from_days ((t + offsetAt z t) div msPerDay)"

definition utc_date :: "int \<Rightarrow> int \<times> nat \<times> nat" where
  "utc_date t = civil_from_days (t div msPerDay)"

definition plain_date_string :: "int \<times> nat \<times> nat \<Rightarrow> string" where
  "plain_date_string ymd' =
     (case ymd' of (y, m, d) \<Rightarrow> iso_year y @ ''-'' @ pad2 m @ ''-'' @ pad2 d)"

definition toISOString :: "int \<Rightarrow> string" where
  "toISOString t =
     (let ms = t mod msPerDay
      in plain_date_string (utc_date t) @ ''T'' @ pad2 (nat (ms div 3600000)) @ '':''
         @ pad2 (nat (ms div 60000 mod 60)) @ '':'' @ pad2 (nat (ms div 1000 mod 60)) @ ''.''
         @ padStart 3 CHR ''0'' (digits_of (nat (ms mod 1000))) @ ''Z'')"

text \<open>\<^verbatim>\<open>resolved?.iana || resolved?.offset\<close>.\<close>

definition tzId_of :: "tz_descriptor \<Rightarrow> string option" where
  "tzId_of resolved =
     (case iana resolved of
        Some z \<Rightarrow> if z \<noteq> [] then Some z else offset resolved
      | None \<Rightarrow> offset resolved)"

text \<open>
  The middle branch of \<^verbatim>\<open>getDateKey\<close>: the key of the date in the zone of \<^verbatim>\<open>tz\<close>, or
  \<open>None\<close> when the function falls through to its last line: no \<^verbatim>\<open>tz\<close>, no identifier
  found by the resolver, or an identifier \<^verbatim>\<open>Temporal\<close> refuses (its exception is caught).
  The warnings written on the way are not modelled.
\<close>

definition zoned_date_key :: "runtime \<Rightarrow> jsdate \<Rightarrow> string option" where
  "zoned_date_key rt dateValue =
     (case tz dateValue of
        None \<Rightarrow> None
      | Some s \<Rightarrow>
          if s = [] then None
          else (case tzId_of (resolveTZID rt (JString s)) of
                  None \<Rightarrow> None
                | Some tzId \<Rightarrow>
                    if tzId = [] then None
                    else (case temporal_zone rt tzId of
                            None \<Rightarrow> None
                          | Some z \<Rightarrow> Some (plain_date_string (zoned_date z (time dateValue))))))"

definition getDateKey :: "runtime \<Rightarrow> jsdate \<Rightarrow> string" where
  "getDateKey rt dateValue =
     (if dateOnly dateValue
      then (case local_date rt (time dateValue) of
              (y, m, d) \<Rightarrow> year_string y @ ''-'' @ pad2 m @ ''-'' @ pad2 d)
      else (case zoned_date_key rt dateValue of
              Some k \<Rightarrow> k
            | None \<Rightarrow> take 10 (toISOString (time dateValue))))"





















section \<open>The expansion engine\<close>

text \<open>
  The engine itself (\<^verbatim>\<open>expandRecurringEvent\<close> of \<^verbatim>\<open>node-ical.js\<close>) is not among the
  sources; only its tests are.  This section follows sections 3, 4.4 and 4.5 of the
  specification sentence by sentence, on top of \<^const>\<open>getDateKey\<close> and
  \<^const>\<open>toISOString\<close> of the code.
\<close>

text \<open>
  Modelled from the spec: the field \<^verbatim>\<open>datetype\<close> of an event, "one of {date, date-time}".
\<close>

datatype date_kind = Date | DateTime

text \<open>
  Modelled from the spec: an override event, the value of a key of \<^verbatim>\<open>recurrences\<close>
  ("same shape, minus rrule"), with the fields the engine reads: \<^verbatim>\<open>summary\<close>,
  \<^verbatim>\<open>start\<close> and the optional \<^verbatim>\<open>end\<close>.
\<close>

record override =
  ov_summary :: string
  ov_start :: jsdate
  ov_end :: "jsdate option"

text \<open>
  Modelled from the spec: the event handed to the engine (section 3).  \<open>finish\<close> is the
  field \<^verbatim>\<open>end\<close>; \<open>duration\<close> is the explicit duration in milliseconds; \<open>rrule\<close> is the
  rule's one method \<^verbatim>\<open>between(from, to)\<close>; \<open>exdate\<close> lists the keys of the mapping
  \<^verbatim>\<open>exdate\<close>; \<open>recurrences\<close> pairs each key with its override.
\<close>

record event =
  uid :: string
  summary :: string
  start :: jsdate
  finish :: "jsdate option"
  duration :: "int option"
  datetype :: date_kind
  rrule :: "(int \<Rightarrow> int \<Rightarrow> jsdate list) option"
  exdate :: "string list"
  recurrences :: "(string \<times> override) list"

text \<open>
  Modelled from the spec: the field \<^verbatim>\<open>event\<close> of an instance, a "reference to the
  effective event record (base or override)".
\<close>

datatype event_ref = BaseEvent | OverrideEvent override

text \<open>
  Modelled from the spec: the instance the engine emits (section 3); \<open>inst_start\<close>,
  \<open>inst_end\<close>, \<open>inst_summary\<close> and \<open>inst_event\<close> are its fields \<^verbatim>\<open>start\<close>, \<^verbatim>\<open>end\<close>,
  \<^verbatim>\<open>summary\<close> and \<^verbatim>\<open>event\<close>.
\<close>

record inst_record =
  inst_start :: jsdate
  inst_end :: jsdate
  inst_summary :: string
  isFullDay :: bool
  isRecurring :: bool
  isOverride :: bool
  inst_event :: event_ref

text \<open>
  Modelled from the spec: a value passed as \<^verbatim>\<open>from\<close> or \<^verbatim>\<open>to\<close>: a date object, whose
  time value is a number or \<^verbatim>\<open>NaN\<close> (\<open>None\<close>), or a value that is no date at all.
\<close>

datatype js_arg = DateArg "int option" | OtherArg

text \<open>
  Modelled from the spec: the request \<^verbatim>\<open>{from, to, options}\<close> of section 4.5; an option
  that is not given is \<open>None\<close>.
\<close>

record request =
  req_from :: js_arg
  req_to :: js_arg
  excludeExdates :: "bool option"
  includeOverrides :: "bool option"
  expandOngoing :: "bool option"

text \<open>
  Modelled from the spec: the defaults of the options, "excludeExdates (true)",
  "includeOverrides (true)", "expandOngoing (false)".
\<close>

definition excludes :: "request \<Rightarrow> bool" where
  "excludes req = (case excludeExdates req of None \<Rightarrow> True | Some b \<Rightarrow> b)"

definition overrides :: "request \<Rightarrow> bool" where
  "overrides req = (case includeOverrides req of None \<Rightarrow> True | Some b \<Rightarrow> b)"

definition ongoing :: "request \<Rightarrow> bool" where
  "ongoing req = (case expandOngoing req of None \<Rightarrow> False | Some b \<Rightarrow> b)"

text \<open>
  Modelled from the spec: a valid instant ("from/to not an instant, or instant is NaN"
  is the condition of \<^verbatim>\<open>InvalidArgument\<close>).
\<close>

fun valid_instant :: "js_arg \<Rightarrow> int option" where
  "valid_instant (DateArg (Some t)) = Some t"
| "valid_instant (DateArg None) = None"
| "valid_instant OtherArg = None"

text \<open>
  Modelled from the spec: the input validation of section 4.5.  "from and to must be
  valid instants; otherwise raise InvalidArgument", the \<^verbatim>\<open>TypeError\<close> of the tests;
  "from \<open>\<le>\<close> to must hold; otherwise raise RangeError".  The message names the
  offending input.
\<close>

definition validate :: "request \<Rightarrow> js_error + int \<times> int" where
  "validate req =
     (case valid_instant (req_from req) of
        None \<Rightarrow> Inl (TypeError ''from'')
      | Some f \<Rightarrow>
          (case valid_instant (req_to req) of
             None \<Rightarrow> Inl (TypeError ''to'')
           | Some t \<Rightarrow> if t < f then Inl (RangeError ''from > to'') else Inr (f, t)))"

text \<open>
  Modelled from the spec: whole-day semantics, "derived strictly from datetype == date or
  start.dateOnly".
\<close>

definition whole_day :: "event \<Rightarrow> jsdate \<Rightarrow> bool" where
  "whole_day ev st \<longleftrightarrow> datetype ev = Date \<or> dateOnly st"

text \<open>
  Modelled from the spec: step 1 of the algorithm.  With a rule, the candidates are the
  rule's instants in a widened interval: "a conservative widening of one day suffices
  for whole-day events; timed events use the base end - start duration".  Without a
  rule, "the sole candidate is event.start".
\<close>

definition widening :: "event \<Rightarrow> int" where
  "widening ev =
     (if whole_day ev (start ev) then msPerDay
      else case finish ev of Some e \<Rightarrow> time e - time (start ev) | None \<Rightarrow> 0)"

definition candidates :: "event \<Rightarrow> int \<Rightarrow> int \<Rightarrow> jsdate list" where
  "candidates ev f t =
     (case rrule ev of
        Some between \<Rightarrow> between (f - widening ev) t
      | None \<Rightarrow> [start ev])"

text \<open>
  Modelled from the spec: step 2b.  "If excludeExdates and (event.exdate[key] exists or
  event.exdate[C.toISO()] exists): skip", with key = keyOf(C).
\<close>

definition skipped :: "runtime \<Rightarrow> event \<Rightarrow> bool \<Rightarrow> jsdate \<Rightarrow> bool" where
  "skipped rt ev excl C \<longleftrightarrow>
     excl \<and> (getDateKey rt C \<in> set (exdate ev) \<or> toISOString (time C) \<in> set (exdate ev))"

text \<open>
  Modelled from the spec: step 2d, the end of an instance that starts at \<open>st\<close>.  "If
  effective (override) supplies end, use it.  Else if event has duration, set end = start
  + duration.  Else if event.end exists, set end = start + (event.end - event.start).
  Else if dateOnly, set end = start + 24h.  Else set end = start."  A computed end
  carries the metadata of \<^verbatim>\<open>event.end\<close> where it is computed from it, and that of the
  start otherwise.
\<close>

definition instance_end :: "event \<Rightarrow> jsdate \<Rightarrow> jsdate option \<Rightarrow> jsdate" where
  "instance_end ev st supplied =
     (case supplied of
        Some e \<Rightarrow> e
      | None \<Rightarrow>
          (case duration ev of
             Some d \<Rightarrow> st\<lparr>time := time st + d\<rparr>
           | None \<Rightarrow>
               (case finish ev of
                  Some e \<Rightarrow> e\<lparr>time := time st + (time e - time (start ev))\<rparr>
                | None \<Rightarrow>
                    if dateOnly st then st\<lparr>time := time st + msPerDay\<rparr> else st)))"

text \<open>
  Modelled from the spec: steps 2a, 2c, 2d and 2f for one candidate.  "If
  includeOverrides and event.recurrences[key] exists: set effective =
  event.recurrences[key]; isOverride = true; use the override's own start/end/summary
  verbatim.  Otherwise: effective = event; isOverride = false; the instance's start is C
  with its metadata inherited from event.start (in particular, dateOnly and tz)."
\<close>

definition instance_of :: "runtime \<Rightarrow> event \<Rightarrow> bool \<Rightarrow> jsdate \<Rightarrow> inst_record" where
  "instance_of rt ev incl C =
     (case (if incl then map_of (recurrences ev) (getDateKey rt C) else None) of
        Some ov \<Rightarrow>
          \<lparr>inst_start = ov_start ov,
           inst_end = instance_end ev (ov_start ov) (ov_end ov),
           inst_summary = ov_summary ov,
           isFullDay = whole_day ev (ov_start ov),
           isRecurring = (case rrule ev of Some _ \<Rightarrow> True | None \<Rightarrow> False),
           isOverride = True,
           inst_event = OverrideEvent ov\<rparr>
      | None \<Rightarrow>
          (let st = C\<lparr>tz := tz (start ev), dateOnly := dateOnly (start ev)\<rparr>
           in \<lparr>inst_start = st,
               inst_end = instance_end ev st None,
               inst_summary = summary ev,
               isFullDay = whole_day ev st,
               isRecurring = (case rrule ev of Some _ \<Rightarrow> True | None \<Rightarrow> False),
               isOverride = False,
               inst_event = BaseEvent\<rparr>))"

text \<open>
  Modelled from the spec: step 2e, the window filter.  "If !expandOngoing: include iff
  from \<open>\<le>\<close> start \<open>\<le>\<close> to.  If expandOngoing: include iff start \<open>\<le>\<close> to and end
  \<open>\<ge>\<close> from."
\<close>

definition in_window :: "bool \<Rightarrow> int \<Rightarrow> int \<Rightarrow> inst_record \<Rightarrow> bool" where
  "in_window ong f t i \<longleftrightarrow>
     (if ong then time (inst_start i) \<le> t \<and> f \<le> time (inst_end i)
      else f \<le> time (inst_start i) \<and> time (inst_start i) \<le> t)"

text \<open>
  Modelled from the spec: the candidates that are neither skipped in step 2b nor
  filtered out in step 2e, in the order of the rule.
\<close>

definition kept :: "runtime \<Rightarrow> event \<Rightarrow> request \<Rightarrow> int \<Rightarrow> int \<Rightarrow> jsdate list" where
  "kept rt ev req f t =
     filter (\<lambda>C. \<not> skipped rt ev (excludes req) C
                 \<and> in_window (ongoing req) f t (instance_of rt ev (overrides req) C))
       (candidates ev f t)"

text \<open>
  Modelled from the spec: \<^verbatim>\<open>expand(event, request)\<close>: the validation, then steps 1 and
  2, then step 3, "sort emitted instances by start ascending; preserve input order for
  equal starts".  A validation error is the whole result.
\<close>

definition expand :: "runtime \<Rightarrow> event \<Rightarrow> request \<Rightarrow> js_error + inst_record list" where
  "expand rt ev req =
     (case validate req of
        Inl e \<Rightarrow> Inl e
      | Inr (f, t) \<Rightarrow>
          Inr (sort_key (\<lambda>i. time (inst_start i))
                 (map (instance_of rt ev (overrides req)) (kept rt ev req f t))))"

subsection \<open>Events to compute with\<close>

text \<open>
  Modelled from the spec: a rule given by the list of the instants it generates:
  \<^verbatim>\<open>between(from, to)\<close> returns those "whose start falls within [from, to] inclusive",
  in the order of the list, as bare dates without metadata.
\<close>

definition rule_of :: "int list \<Rightarrow> int \<Rightarrow> int \<Rightarrow> jsdate list" where
  "rule_of instants a b = map new_Date (filter (\<lambda>t. a \<le> t \<and> t \<le> b) instants)"

text \<open>
  Modelled from the spec: the request for a window between two valid instants, with no
  option given.
\<close>

definition window :: "int \<Rightarrow> int \<Rightarrow> request" where
  "window f t =
     \<lparr>req_from = DateArg (Some f), req_to = DateArg (Some t), excludeExdates = None,
      includeOverrides = None, expandOngoing = None\<rparr>"


text \<open>
  Scenario 6: a whole-day event on every day of January 2025, on a host whose zone is
  UTC.
\<close>

definition daily_january :: event where
  "daily_january =
     \<lparr>uid = ''daily'',
      summary = ''Daily'',
      start = \<lparr>time = 1735689600000, tz = None, dateOnly = True\<rparr>,
      finish = Some \<lparr>time = 1735776000000, tz = None, dateOnly = True\<rparr>,
      duration = None,
      datetype = Date,
      rrule = Some (rule_of (map (\<lambda>k. 1735689600000 + k * 86400000) [0..30])),
      exdate = [],
      recurrences = []\<rparr>"








lemma validate_Inr:
  "validate req = Inr (f, t)
   \<longleftrightarrow> valid_instant (req_from req) = Some f \<and> valid_instant (req_to req) = Some t \<and> f \<le> t"
  by (auto simp: validate_def split: option.splits)

text \<open>
  Claim C5.  \<^verbatim>\<open>expand\<close> raises the \<^verbatim>\<open>TypeError\<close> of \<^verbatim>\<open>InvalidArgument\<close> exactly when
  \<^verbatim>\<open>from\<close> or \<^verbatim>\<open>to\<close> is not a valid instant (no date, or a date whose time value is
  \<^verbatim>\<open>NaN\<close>), and the \<^verbatim>\<open>RangeError\<close> exactly when both are valid and \<^verbatim>\<open>from\<close> is after
  \<^verbatim>\<open>to\<close>; an error is the whole result, without instances; and for every event and all
  options a list of instances is returned whenever both are valid and \<^verbatim>\<open>from\<close> is not
  after \<^verbatim>\<open>to\<close>: no other precondition is enforced.
\<close>

theorem expand_validation:
  "(expand rt ev req = Inl e \<longleftrightarrow>
      (valid_instant (req_from req) = None \<and> e = TypeError ''from'')
      \<or> (\<exists>f. valid_instant (req_from req) = Some f
              \<and> valid_instant (req_to req) = None \<and> e = TypeError ''to'')
      \<or> (\<exists>f t. valid_instant (req_from req) = Some f \<and> valid_instant (req_to req) = Some t
                \<and> t < f \<and> e = RangeError ''from > to''))
   \<and> ((\<exists>xs. expand rt ev req = Inr xs) \<longleftrightarrow>
        (\<exists>f t. valid_instant (req_from req) = Some f \<and> valid_instant (req_to req) = Some t
               \<and> f \<le> t))
   \<and> (valid_instant a = None \<longleftrightarrow> a = OtherArg \<or> a = DateArg None)"
proof (intro conjI)
  show "expand rt ev req = Inl e \<longleftrightarrow>
      (valid_instant (req_from req) = None \<and> e = TypeError ''from'')
      \<or> (\<exists>f. valid_instant (req_from req) = Some f
              \<and> valid_instant (req_to req) = None \<and> e = TypeError ''to'')
      \<or> (\<exists>f t. valid_instant (req_from req) = Some f \<and> valid_instant (req_to req) = Some t
                \<and> t < f \<and> e = RangeError ''from > to'')"
    by (auto simp: expand_def validate_def split: option.splits sum.splits)
  show "(\<exists>xs. expand rt ev req = Inr xs) \<longleftrightarrow>
        (\<exists>f t. valid_instant (req_from req) = Some f \<and> valid_instant (req_to req) = Some t
               \<and> f \<le> t)"
    by (auto simp: expand_def validate_def split: option.splits sum.splits)
  show "valid_instant a = None \<longleftrightarrow> a = OtherArg \<or> a = DateArg None"
    by (cases a rule: valid_instant.cases) simp_all
qed

text \<open>
  The theorem at the requests of the tests: a string for \<^verbatim>\<open>from\<close>, an invalid date for
  \<^verbatim>\<open>from\<close>, a string for \<^verbatim>\<open>to\<close>, and 31 December 2025 to 1 January 2025.
\<close>

theorem expand_validation_witness:
  "expand sample_runtime daily_january
      ((window 0 0)\<lparr>req_from := OtherArg\<rparr>) = Inl (TypeError ''from'')
   \<and> expand sample_runtime daily_january
      ((window 0 0)\<lparr>req_from := DateArg None\<rparr>) = Inl (TypeError ''from'')
   \<and> expand sample_runtime daily_january
      ((window 0 0)\<lparr>req_to := OtherArg\<rparr>) = Inl (TypeError ''to'')
   \<and> expand sample_runtime daily_january (window 1767139200000 1735689600000)
      = Inl (RangeError ''from > to'')
   \<and> (\<exists>xs. expand sample_runtime daily_january (window 1735689600000 1767139200000) = Inr xs)"
  using
    expand_validation [of sample_runtime daily_january "(window 0 0)\<lparr>req_from := OtherArg\<rparr>"
      "TypeError ''from''" OtherArg]
    expand_validation [of sample_runtime daily_january "(window 0 0)\<lparr>req_from := DateArg None\<rparr>"
      "TypeError ''from''" OtherArg]
    expand_validation [of sample_runtime daily_january "(window 0 0)\<lparr>req_to := OtherArg\<rparr>"
      "TypeError ''to''" OtherArg]
    expand_validation [of sample_runtime daily_january "window 1767139200000 1735689600000"
      "RangeError ''from > to''" OtherArg]
    expand_validation [of sample_runtime daily_january "window 1735689600000 1767139200000"
      "RangeError ''from > to''" OtherArg]
  by (simp add: window_def)














end
